theory Spec2Isabelle
  imports
    Complex_Main
    "HOL-Library.AList"
    "HOL-Library.Sublist"
    "HOL-Library.Char_ord"
    "HOL-Library.List_Lexorder"
begin

chapter \<open>The model\<close>

section \<open>Strings\<close>

text \<open>
  Python \<^verbatim>\<open>str\<close> values are modelled as \<^typ>\<open>string\<close> (lists of characters).
  Strings are compared as Python compares them, lexicographically by character code
  (the orders of \<open>Char_ord\<close> and \<open>List_Lexorder\<close>).
\<close>

abbreviation newline :: char where
  "newline \<equiv> CHR 0x0A"

text \<open>\<^verbatim>\<open>sep.join(xs)\<close>: the separator between consecutive elements and nowhere else.\<close>

fun str_join :: "string \<Rightarrow> string list \<Rightarrow> string" where
  "str_join sep [] = []"
| "str_join sep [x] = x"
| "str_join sep (x # y # ys) = x @ sep @ str_join sep (y # ys)"

text \<open>
  \<^verbatim>\<open>s.lower()\<close>: the letters \<open>A\<close> to \<open>Z\<close> are mapped to \<open>a\<close> to \<open>z\<close>; every other
  character of the model is left as it is (the model covers ASCII text).
\<close>

definition lower_char :: "char \<Rightarrow> char" where
  "lower_char c =
     (case map_of (zip ''ABCDEFGHIJKLMNOPQRSTUVWXYZ'' ''abcdefghijklmnopqrstuvwxyz'') c of
        None \<Rightarrow> c
      | Some l \<Rightarrow> l)"

definition str_lower :: "string \<Rightarrow> string" where
  "str_lower s = map lower_char s"

text \<open>\<^verbatim>\<open>s.startswith(w)\<close> and \<^verbatim>\<open>w in s\<close> (substring test).\<close>

fun startswith :: "string \<Rightarrow> string \<Rightarrow> bool" where
  "startswith s [] = True"
| "startswith [] (w # ws) = False"
| "startswith (c # cs) (w # ws) = (c = w \<and> startswith cs ws)"

fun str_in :: "string \<Rightarrow> string \<Rightarrow> bool" where
  "str_in w [] = (w = [])"
| "str_in w (c # cs) = (startswith (c # cs) w \<or> str_in w cs)"

text \<open>\<^verbatim>\<open>str(n)\<close> for an integer: decimal digits, with a minus sign when negative.\<close>

definition digit_char :: "nat \<Rightarrow> char" where
  "digit_char d = ''0123456789'' ! (d mod 10)"

fun str_nat :: "nat \<Rightarrow> string" where
  "str_nat n = (if n < 10 then [digit_char n] else str_nat (n div 10) @ [digit_char (n mod 10)])"

declare str_nat.simps [simp del]

definition str_int :: "int \<Rightarrow> string" where
  "str_int i = (if i < 0 then CHR ''-'' # str_nat (nat (- i)) else str_nat (nat i))"

section \<open>Python values and exceptions\<close>

text \<open>
  The exceptions the modelled code can meet. \<open>RequestException\<close> stands for
  \<^verbatim>\<open>requests.RequestException\<close> and carries \<^verbatim>\<open>str(e)\<close>; \<open>JSONDecodeError\<close> is the
  error of \<^verbatim>\<open>response.json()\<close> on a body that is not JSON, which the \<^verbatim>\<open>requests\<close>
  library declares as a subclass of \<^verbatim>\<open>RequestException\<close>.
\<close>

datatype py_exception =
    RequestException string
  | JSONDecodeError string
  | AttributeError
  | KeyError string
  | TypeError

text \<open>\<^verbatim>\<open>except requests.RequestException\<close> catches exactly these.\<close>

fun is_RequestException :: "py_exception \<Rightarrow> bool" where
  "is_RequestException (RequestException msg) = True"
| "is_RequestException (JSONDecodeError msg) = True"
| "is_RequestException e = False"

fun exception_str :: "py_exception \<Rightarrow> string" where
  "exception_str (RequestException msg) = msg"
| "exception_str (JSONDecodeError msg) = msg"
| "exception_str AttributeError = ''AttributeError''"
| "exception_str (KeyError k) = [CHR 0x27] @ k @ [CHR 0x27]"
| "exception_str TypeError = ''TypeError''"

text \<open>A decoded JSON document. The number carried by \<open>JNum\<close> is only passed through.\<close>

datatype json =
    JNull
  | JBool bool
  | JNum real
  | JStr string
  | JArr "json list"
  | JObj "(string \<times> json) list"

text \<open>
  \<^verbatim>\<open>x.get(key, default)\<close>: defined on a dict only; any other decoded JSON value has no
  attribute \<^verbatim>\<open>get\<close>.
\<close>

fun py_get :: "json \<Rightarrow> string \<Rightarrow> json \<Rightarrow> py_exception + json" where
  "py_get (JObj kvs) key dflt = Inr (case map_of kvs key of None \<Rightarrow> dflt | Some v \<Rightarrow> v)"
| "py_get x key dflt = Inl AttributeError"

text \<open>
  \<^verbatim>\<open>x[key]\<close> with a string key: the value or \<^verbatim>\<open>KeyError\<close> on a dict, \<^verbatim>\<open>TypeError\<close>
  on every other decoded JSON value.
\<close>

fun py_getitem :: "json \<Rightarrow> string \<Rightarrow> py_exception + json" where
  "py_getitem (JObj kvs) key =
     (case map_of kvs key of None \<Rightarrow> Inl (KeyError key) | Some v \<Rightarrow> Inr v)"
| "py_getitem x key = Inl TypeError"

text \<open>
  \<^verbatim>\<open>for model in x\<close>: a list yields its elements, a dict its keys, a string its
  characters; the other decoded JSON values are not iterable.
\<close>

fun py_iter :: "json \<Rightarrow> py_exception + json list" where
  "py_iter (JArr xs) = Inr xs"
| "py_iter (JObj kvs) = Inr (map (\<lambda>kv. JStr (fst kv)) kvs)"
| "py_iter (JStr s) = Inr (map (\<lambda>c. JStr [c]) s)"
| "py_iter x = Inl TypeError"

section \<open>Prompt Catalog (\<^verbatim>\<open>prompt_utils\<close>)\<close>

text \<open>
  One catalog entry is a dict with the keys \<^verbatim>\<open>name\<close>, \<^verbatim>\<open>description\<close>, \<^verbatim>\<open>prompt\<close> and
  \<^verbatim>\<open>requires_json\<close>. Each key may be absent (\<open>None\<close>), which is what
  \<^verbatim>\<open>prompt_data.get(key, default)\<close> tests. The catalog is a dict from identifier to
  entry, kept as the list of its items in insertion order; the keys of a dict are
  distinct.
\<close>

record prompt_data =
  p_name :: "string option"
  p_description :: "string option"
  p_prompt :: "string option"
  p_requires_json :: "bool option"

type_synonym prompts_data = "(string \<times> prompt_data) list"

definition empty_dict :: prompt_data where
  "empty_dict = \<lparr>p_name = None, p_description = None, p_prompt = None, p_requires_json = None\<rparr>"

text \<open>\<^verbatim>\<open>d.get(key, default)\<close> on one field of an entry.\<close>

definition get_or :: "'a option \<Rightarrow> 'a \<Rightarrow> 'a" where
  "get_or field dflt = (case field of None \<Rightarrow> dflt | Some v \<Rightarrow> v)"

definition get_prompt_by_id :: "string \<Rightarrow> prompts_data \<Rightarrow> prompt_data" where
  "get_prompt_by_id prompt_id prompts_data =
     (case map_of prompts_data prompt_id of None \<Rightarrow> empty_dict | Some d \<Rightarrow> d)"

definition get_prompt_text :: "string \<Rightarrow> prompts_data \<Rightarrow> string" where
  "get_prompt_text prompt_id prompts_data =
     (let prompt_data = get_prompt_by_id prompt_id prompts_data
      in get_or (p_prompt prompt_data) '''')"

definition get_default_prompt :: prompt_data where
  "get_default_prompt =
     \<lparr>p_name = Some ''Basic Cleanup'',
      p_description = Some ''Transforms text using basic cleanup style or format'',
      p_prompt = Some ''Take the following text and refine it to add missing punctuation, resolve typos, add paragraph spacing, and generally enhance the presentation of the text while preserving the original meaning.'',
      p_requires_json = Some False\<rparr>"




section \<open>Prompt Composer (\<^verbatim>\<open>ollama_api.concatenate_prompts\<close>)\<close>

definition final_instruction :: string where
  "final_instruction =
     newline # ''Apply ALL of the above transformations to the user's input text.''"

definition concatenate_prompts :: "string list \<Rightarrow> string" where
  "concatenate_prompts prompts =
     (if prompts = [] then ''''
      else (let concatenated = str_join [newline, newline] prompts
            in concatenated @ final_instruction))"

text \<open>The directive without its leading newline, as the specification names it.\<close>

definition trailing_directive :: string where
  "trailing_directive = ''Apply ALL of the above transformations to the user's input text.''"

section \<open>Prompt Selector (\<^verbatim>\<open>app.transform_text\<close> and \<^verbatim>\<open>app.main\<close>)\<close>

text \<open>
  The loop of \<^verbatim>\<open>transform_text\<close> over the selected identifiers: the text of each is
  looked up and appended to \<^verbatim>\<open>selected_prompts\<close> when it is truthy (non-empty).
\<close>

fun collect_prompts :: "string list \<Rightarrow> prompts_data \<Rightarrow> string list \<Rightarrow> string list" where
  "collect_prompts [] prompts_data selected_prompts = selected_prompts"
| "collect_prompts (prompt_id # rest) prompts_data selected_prompts =
     (let prompt_text = get_prompt_text prompt_id prompts_data
      in collect_prompts rest prompts_data
           (if prompt_text \<noteq> '''' then selected_prompts @ [prompt_text]
            else selected_prompts))"

text \<open>\<^verbatim>\<open>default_prompt["prompt"]\<close>: subscripting raises \<^verbatim>\<open>KeyError\<close> on an absent key.\<close>

definition prompt_item :: "prompt_data \<Rightarrow> py_exception + string" where
  "prompt_item d = (case p_prompt d of None \<Rightarrow> Inl (KeyError ''prompt'') | Some t \<Rightarrow> Inr t)"

text \<open>
  The instruction texts handed to the composer: the collected ones, or the default
  prompt's text when none was collected.
\<close>

definition selected_prompts :: "string list \<Rightarrow> prompts_data \<Rightarrow> py_exception + string list" where
  "selected_prompts selected_transformations prompts_data =
     (let collected = collect_prompts selected_transformations prompts_data []
      in if collected = [] then
           (case prompt_item get_default_prompt of
              Inl e \<Rightarrow> Inl e
            | Inr t \<Rightarrow> Inr (collected @ [t]))
         else Inr collected)"

definition system_prompt_of :: "string list \<Rightarrow> prompts_data \<Rightarrow> py_exception + string" where
  "system_prompt_of selected_transformations prompts_data =
     (case selected_prompts selected_transformations prompts_data of
        Inl e \<Rightarrow> Inl e
      | Inr ps \<Rightarrow> Inr (concatenate_prompts ps))"

text \<open>
  The cap of \<^verbatim>\<open>main\<close> on the selection: the result is the list of warnings shown
  (\<^verbatim>\<open>st.warning\<close>) and the selection stored in the session state.
\<close>

definition limit_warning :: string where
  "limit_warning = ''You can select up to 10 transformations. Only the first 10 will be applied.''"

definition limit_selection :: "string list \<Rightarrow> string list \<times> string list" where
  "limit_selection selected_transformations =
     (if length selected_transformations > 10
      then ([limit_warning], take 10 selected_transformations)
      else ([], selected_transformations))"

section \<open>Categorisation (\<^verbatim>\<open>app.categorize_prompts\<close>)\<close>

text \<open>
  The result dict maps each category name to a list of pairs (identifier, display
  name); it is kept as the list of its items in the order the source creates them.
\<close>

type_synonym categories = "(string \<times> (string \<times> string) list) list"

definition initial_categories :: categories where
  "initial_categories =
     [(''General'', []),
      (''Format Conversion'', []),
      (''Style'', []),
      (''Professional'', []),
      (''Academic'', []),
      (''Creative'', []),
      (''Technical'', []),
      (''Social Media'', []),
      (''Prompting'', []),
      (''Other'', [])]"

text \<open>\<^verbatim>\<open>categories[category].append(entry)\<close> on a key the dict has.\<close>

definition append_to :: "string \<Rightarrow> string \<times> string \<Rightarrow> categories \<Rightarrow> categories" where
  "append_to category entry cats =
     map (\<lambda>kv. if fst kv = category then (fst kv, snd kv @ [entry]) else kv) cats"

text \<open>\<^verbatim>\<open>any(word in name or word in description for word in words)\<close>.\<close>

definition any_word_in :: "string \<Rightarrow> string \<Rightarrow> string list \<Rightarrow> bool" where
  "any_word_in name_l description_l words =
     list_ex (\<lambda>word. str_in word name_l \<or> str_in word description_l) words"

text \<open>One iteration of the loop over the catalog items: the \<^verbatim>\<open>if\<close>/\<^verbatim>\<open>elif\<close> chain.\<close>

definition categorize_item :: "categories \<Rightarrow> string \<times> prompt_data \<Rightarrow> categories" where
  "categorize_item cats item =
     (case item of (prompt_id, prompt_data) \<Rightarrow>
        (let name_l = str_lower (get_or (p_name prompt_data) '''');
             description_l = str_lower (get_or (p_description prompt_data) '''');
             entry = (prompt_id, get_or (p_name prompt_data) ''Unknown'')
         in if any_word_in name_l description_l
                 [''cleanup'', ''extract'', ''anonymization'', ''bullet'', ''summary'']
            then append_to ''General'' entry cats
            else if any_word_in name_l description_l
                 [''email'', ''letter'', ''minutes'', ''documentation'', ''status'', ''responder'']
            then append_to ''Professional'' entry cats
            else if any_word_in name_l description_l [''academic'', ''scientific'', ''paper'']
            then append_to ''Academic'' entry cats
            else if any_word_in name_l description_l [''blog'', ''social'', ''media'']
            then append_to ''Social Media'' entry cats
            else if any_word_in name_l description_l
                 [''poetry'', ''poem'', ''shakespeare'', ''tolkien'', ''creative'']
            then append_to ''Creative'' entry cats
            else if any_word_in name_l description_l
                 [''code'', ''technical'', ''development'', ''software'']
            then append_to ''Technical'' entry cats
            else if any_word_in name_l description_l [''format'', ''convert'', ''transform'']
            then append_to ''Format Conversion'' entry cats
            else if any_word_in name_l description_l [''tone'', ''style'', ''formal'', ''casual'']
            then append_to ''Style'' entry cats
            else if any_word_in name_l description_l [''prompt'', ''chatgpt'', ''ai'']
            then append_to ''Prompting'' entry cats
            else append_to ''Other'' entry cats))"

text \<open>
  The whole function: the loop over the items, then each category's list sorted in
  place by the display name (\<^verbatim>\<open>list.sort\<close> is stable, as \<^const>\<open>sort_key\<close> is).
\<close>

definition categorize_prompts :: "prompts_data \<Rightarrow> categories" where
  "categorize_prompts prompts_data =
     map (\<lambda>kv. (fst kv, sort_key snd (snd kv)))
       (fold (\<lambda>item cats. categorize_item cats item) prompts_data initial_categories)"

text \<open>
  The rule list of the specification: pairs of a bucket name and its keywords, in
  priority order; the first rule with a keyword occurring in the lowercased name or
  description decides, and \<open>Other\<close> catches the rest.
\<close>

definition category_rules :: "(string \<times> string list) list" where
  "category_rules =
     [(''General'', [''cleanup'', ''extract'', ''anonymization'', ''bullet'', ''summary'']),
      (''Professional'',
         [''email'', ''letter'', ''minutes'', ''documentation'', ''status'', ''responder'']),
      (''Academic'', [''academic'', ''scientific'', ''paper'']),
      (''Social Media'', [''blog'', ''social'', ''media'']),
      (''Creative'', [''poetry'', ''poem'', ''shakespeare'', ''tolkien'', ''creative'']),
      (''Technical'', [''code'', ''technical'', ''development'', ''software'']),
      (''Format Conversion'', [''format'', ''convert'', ''transform'']),
      (''Style'', [''tone'', ''style'', ''formal'', ''casual'']),
      (''Prompting'', [''prompt'', ''chatgpt'', ''ai''])]"

fun first_match :: "(string \<times> string list) list \<Rightarrow> string \<Rightarrow> string \<Rightarrow> string" where
  "first_match [] name_l description_l = ''Other''"
| "first_match (rule # rules) name_l description_l =
     (if list_ex (\<lambda>word. sublist word name_l \<or> sublist word description_l) (snd rule)
      then fst rule
      else first_match rules name_l description_l)"

definition category_of :: "prompt_data \<Rightarrow> string" where
  "category_of d =
     first_match category_rules
       (str_lower (get_or (p_name d) '''')) (str_lower (get_or (p_description d) ''''))"

definition display_entry :: "string \<times> prompt_data \<Rightarrow> string \<times> string" where
  "display_entry item = (fst item, get_or (p_name (snd item)) ''Unknown'')"

definition bucket :: "categories \<Rightarrow> string \<Rightarrow> (string \<times> string) list" where
  "bucket cats category = get_or (map_of cats category) []"

section \<open>Generation Client (\<^verbatim>\<open>ollama_api.OllamaAPI\<close>)\<close>

text \<open>
  A response of the \<^verbatim>\<open>requests\<close> library: the status code, the raw body
  (\<^verbatim>\<open>response.text\<close>) and the outcome of \<^verbatim>\<open>response.json()\<close>, which is the decoded
  document or the message of the decoding error. A call of \<^verbatim>\<open>requests.get\<close> or
  \<^verbatim>\<open>requests.post\<close> returns a response or raises a \<^verbatim>\<open>RequestException\<close>; the network
  is a parameter of the model, a function from the request to this outcome.
\<close>

record response =
  status_code :: int
  text_body :: string
  json_result :: "string + json"

datatype request_outcome = Raises string | Returns response

definition response_json :: "response \<Rightarrow> py_exception + json" where
  "response_json r = (case json_result r of Inl msg \<Rightarrow> Inl (JSONDecodeError msg) | Inr v \<Rightarrow> Inr v)"

record ollama_api =
  base_url :: string
  api_url :: string

definition OllamaAPI :: "string \<Rightarrow> ollama_api" where
  "OllamaAPI url = \<lparr>base_url = url, api_url = url @ ''/api''\<rparr>"

definition default_base_url :: string where
  "default_base_url = ''http://localhost:11434''"

text \<open>\<^verbatim>\<open>[model["name"] for model in models]\<close>: the first failing subscript raises.\<close>

fun model_names :: "json list \<Rightarrow> py_exception + json list" where
  "model_names [] = Inr []"
| "model_names (model # models) =
     (case py_getitem model ''name'' of
        Inl e \<Rightarrow> Inl e
      | Inr n \<Rightarrow> (case model_names models of Inl e \<Rightarrow> Inl e | Inr ns \<Rightarrow> Inr (n # ns)))"

text \<open>The body of the \<^verbatim>\<open>try\<close> block of \<^verbatim>\<open>list_models\<close>.\<close>

definition list_models_try ::
  "(string \<Rightarrow> request_outcome) \<Rightarrow> ollama_api \<Rightarrow> py_exception + json list" where
  "list_models_try requests_get self =
     (case requests_get (api_url self @ ''/tags'') of
        Raises msg \<Rightarrow> Inl (RequestException msg)
      | Returns response \<Rightarrow>
          if status_code response = 200 then
            (case response_json response of
               Inl e \<Rightarrow> Inl e
             | Inr doc \<Rightarrow>
                 (case py_get doc ''models'' (JArr []) of
                    Inl e \<Rightarrow> Inl e
                  | Inr models \<Rightarrow>
                      (case py_iter models of
                         Inl e \<Rightarrow> Inl e
                       | Inr ms \<Rightarrow> model_names ms)))
          else Inr [])"

text \<open>The \<^verbatim>\<open>except requests.RequestException\<close> clause around it.\<close>

definition list_models ::
  "(string \<Rightarrow> request_outcome) \<Rightarrow> ollama_api \<Rightarrow> py_exception + json list" where
  "list_models requests_get self =
     (case list_models_try requests_get self of
        Inl e \<Rightarrow> if is_RequestException e then Inr [] else Inl e
      | Inr names \<Rightarrow> Inr names)"

text \<open>
  The payload of \<^verbatim>\<open>generate_text\<close>, a dict in insertion order. \<^verbatim>\<open>system_prompt\<close> is
  \<^verbatim>\<open>None\<close> or a string, and \<^verbatim>\<open>if system_prompt\<close> holds for a non-empty string only.
\<close>

definition build_payload ::
  "string \<Rightarrow> string \<Rightarrow> string option \<Rightarrow> real \<Rightarrow> (string \<times> json) list" where
  "build_payload model prompt system_prompt temperature =
     (let payload =
            [(''model'', JStr model),
             (''prompt'', JStr prompt),
             (''temperature'', JNum temperature),
             (''stream'', JBool False)]
      in case system_prompt of
           None \<Rightarrow> payload
         | Some s \<Rightarrow> if s \<noteq> '''' then AList.update ''system'' (JStr s) payload else payload)"

definition generate_text_try ::
  "(string \<Rightarrow> (string \<times> json) list \<Rightarrow> request_outcome) \<Rightarrow> ollama_api \<Rightarrow>
   string \<Rightarrow> string \<Rightarrow> string option \<Rightarrow> real \<Rightarrow> py_exception + json" where
  "generate_text_try requests_post self model prompt system_prompt temperature =
     (let url = api_url self @ ''/generate'';
          payload = build_payload model prompt system_prompt temperature
      in case requests_post url payload of
           Raises msg \<Rightarrow> Inl (RequestException msg)
         | Returns response \<Rightarrow>
             if status_code response = 200 then
               (case response_json response of
                  Inl e \<Rightarrow> Inl e
                | Inr doc \<Rightarrow> py_get doc ''response'' (JStr ''''))
             else
               (let error_msg = ''Error: '' @ str_int (status_code response) @ '' - ''
                                  @ text_body response
                in Inr (JStr (''Failed to generate text. '' @ error_msg))))"

definition generate_text ::
  "(string \<Rightarrow> (string \<times> json) list \<Rightarrow> request_outcome) \<Rightarrow> ollama_api \<Rightarrow>
   string \<Rightarrow> string \<Rightarrow> string option \<Rightarrow> real \<Rightarrow> py_exception + json" where
  "generate_text requests_post self model prompt system_prompt temperature =
     (case generate_text_try requests_post self model prompt system_prompt temperature of
        Inl e \<Rightarrow>
          if is_RequestException e
          then Inr (JStr (''Failed to connect to Ollama API: '' @ exception_str e))
          else Inl e
      | Inr v \<Rightarrow> Inr v)"


text \<open>The status codes the specification calls successful.\<close>

definition is_2xx :: "int \<Rightarrow> bool" where
  "is_2xx code = (200 \<le> code \<and> code < 300)"

section \<open>Notions of the specification\<close>

text \<open>
  An identifier is resolvable in a catalog when looking it up yields an instruction
  text to send, that is, a non-empty one.
\<close>

definition resolvable :: "string \<Rightarrow> prompts_data \<Rightarrow> bool" where
  "resolvable prompt_id prompts_data = (get_prompt_text prompt_id prompts_data \<noteq> '''')"

text \<open>The instruction text of the built-in \<open>Basic Cleanup\<close> transformation.\<close>

definition basic_cleanup_text :: string where
  "basic_cleanup_text = ''Take the following text and refine it to add missing punctuation, resolve typos, add paragraph spacing, and generally enhance the presentation of the text while preserving the original meaning.''"



text \<open>Servers that give the same outcome to every request.\<close>

definition get_server :: "request_outcome \<Rightarrow> string \<Rightarrow> request_outcome" where
  "get_server outcome url = outcome"

definition post_server ::
  "request_outcome \<Rightarrow> string \<Rightarrow> (string \<times> json) list \<Rightarrow> request_outcome" where
  "post_server outcome url payload = outcome"

text \<open>A small catalog used to run the definitions.\<close>

definition example_catalog :: prompts_data where
  "example_catalog =
     [(''formal_email'',
         \<lparr>p_name = Some ''Formal Email'',
          p_description = Some ''Rewrites the text as a formal message'',
          p_prompt = Some ''Make it formal.'',
          p_requires_json = Some False\<rparr>),
      (''bullet_points'',
         \<lparr>p_name = Some ''Bullet Points'',
          p_description = Some ''Turns the text into a list'',
          p_prompt = Some ''Use bullet points.'',
          p_requires_json = Some False\<rparr>),
      (''basic_cleanup'', get_default_prompt),
      (''draft'',
         \<lparr>p_name = Some ''Draft'',
          p_description = None,
          p_prompt = Some '''',
          p_requires_json = None\<rparr>),
      (''untitled'', empty_dict)]"

chapter \<open>Properties\<close>

section \<open>Prompt Composer\<close>

lemma str_join_Cons:
  "str_join sep (x # xs) = x @ concat (map (\<lambda>t. sep @ t) xs)"
  by (induction xs arbitrary: x) simp_all

text \<open>
  Claim C1. Composing the empty sequence gives the empty string; composing \<open>[a]\<close> gives
  \<open>a\<close>, one newline and the trailing directive; composing \<open>[a, b]\<close> gives \<open>a\<close>, two
  newlines, \<open>b\<close>, one newline and the directive; and for every non-empty sequence the
  texts appear in input order, each but the first preceded by a double newline, with
  the directive appended once at the end.
\<close>

theorem concatenate_prompts_equations:
  "concatenate_prompts [] = ''''
   \<and> concatenate_prompts [a] = a @ [newline] @ trailing_directive
   \<and> concatenate_prompts [a, b] = a @ [newline, newline] @ b @ [newline] @ trailing_directive
   \<and> concatenate_prompts (x # xs) =
       x @ concat (map (\<lambda>t. [newline, newline] @ t) xs) @ [newline] @ trailing_directive
   \<and> trailing_directive = ''Apply ALL of the above transformations to the user's input text.''"
  by (simp add: concatenate_prompts_def final_instruction_def trailing_directive_def
      str_join_Cons)

theorem concatenate_prompts_equations_witness:
  "concatenate_prompts [''Make it formal.'', ''Fix typos.'', ''Shorten.''] =
     ''Make it formal.'' @ [newline, newline] @ ''Fix typos.'' @ [newline, newline] @ ''Shorten.''
       @ [newline] @ ''Apply ALL of the above transformations to the user's input text.''"
  using concatenate_prompts_equations [of "''''" "''''" "''Make it formal.''"
      "[''Fix typos.'', ''Shorten.'']"]
  by simp

section \<open>Prompt Selector\<close>

lemma collect_prompts_filter:
  "collect_prompts sel pd acc =
     acc @ map (\<lambda>i. get_prompt_text i pd) (filter (\<lambda>i. resolvable i pd) sel)"
  by (induction sel arbitrary: acc) (simp_all add: Let_def resolvable_def)

lemma prompt_item_default: "prompt_item get_default_prompt = Inr basic_cleanup_text"
  by (simp add: prompt_item_def get_default_prompt_def basic_cleanup_text_def)

lemma selected_prompts_eq:
  "selected_prompts sel pd =
     Inr (if filter (\<lambda>i. resolvable i pd) sel = [] then [basic_cleanup_text]
          else map (\<lambda>i. get_prompt_text i pd) (filter (\<lambda>i. resolvable i pd) sel))"
  by (simp add: selected_prompts_def collect_prompts_filter prompt_item_default Let_def)

lemma resolvable_iff:
  "resolvable i pd \<longleftrightarrow> (\<exists>d t. map_of pd i = Some d \<and> p_prompt d = Some t \<and> t \<noteq> '''')"
  by (auto simp: resolvable_def get_prompt_text_def get_prompt_by_id_def get_or_def
      empty_dict_def split: option.splits)

text \<open>
  Claim C2. For every selection and every catalog, resolution returns a result and
  never raises: the instruction texts of the resolvable identifiers, in the relative
  order of the selection. An identifier absent from the catalog is not resolvable and
  is skipped. When nothing is resolved (the selection is empty or no identifier of it
  is resolvable) the result is exactly the one instruction text of the built-in
  \<open>Basic Cleanup\<close> default, so the composer, which is applied to the result, never
  receives an empty sequence.
\<close>

theorem selected_prompts_resolution:
  "selected_prompts sel pd =
     Inr (if filter (\<lambda>i. resolvable i pd) sel = [] then [basic_cleanup_text]
          else map (\<lambda>i. get_prompt_text i pd) (filter (\<lambda>i. resolvable i pd) sel))
   \<and> (\<forall>i. map_of pd i = None \<longrightarrow> \<not> resolvable i pd)
   \<and> (\<exists>texts. selected_prompts sel pd = Inr texts \<and> texts \<noteq> []
        \<and> system_prompt_of sel pd = Inr (concatenate_prompts texts))
   \<and> ((\<forall>i\<in>set sel. \<not> resolvable i pd) \<longrightarrow> selected_prompts sel pd = Inr [basic_cleanup_text])
   \<and> selected_prompts [] pd = Inr [basic_cleanup_text]
   \<and> p_name get_default_prompt = Some ''Basic Cleanup''
   \<and> p_prompt get_default_prompt = Some basic_cleanup_text"
proof -
  have "filter (\<lambda>i. resolvable i pd) sel = []" if "\<forall>i\<in>set sel. \<not> resolvable i pd"
    using that by (simp add: filter_empty_conv)
  moreover have "\<not> resolvable i pd" if "map_of pd i = None" for i
    using that by (simp add: resolvable_iff)
  moreover have "p_name get_default_prompt = Some ''Basic Cleanup''"
    "p_prompt get_default_prompt = Some basic_cleanup_text"
    by (simp_all add: get_default_prompt_def basic_cleanup_text_def)
  ultimately show ?thesis
    by (simp add: selected_prompts_eq system_prompt_of_def)
qed

theorem selected_prompts_resolution_witness:
  "selected_prompts [''bullet_points'', ''no_such_id'', ''formal_email''] example_catalog =
     Inr [''Use bullet points.'', ''Make it formal.'']
   \<and> selected_prompts [''no_such_id''] example_catalog = Inr [basic_cleanup_text]"
proof -
  have r: "filter (\<lambda>i. resolvable i example_catalog) [''bullet_points'', ''no_such_id'', ''formal_email'']
      = [''bullet_points'', ''formal_email'']"
    "filter (\<lambda>i. resolvable i example_catalog) [''no_such_id''] = []"
    by (simp_all add: resolvable_def get_prompt_text_def get_prompt_by_id_def get_or_def
        example_catalog_def empty_dict_def)
  have t: "map (\<lambda>i. get_prompt_text i example_catalog) [''bullet_points'', ''formal_email'']
      = [''Use bullet points.'', ''Make it formal.'']"
    by (simp add: get_prompt_text_def get_prompt_by_id_def get_or_def example_catalog_def)
  show ?thesis
    using selected_prompts_resolution
        [of "[''bullet_points'', ''no_such_id'', ''formal_email'']" example_catalog]
      selected_prompts_resolution [of "[''no_such_id'']" example_catalog]
    by (simp only: r t) simp
qed

text \<open>
  Claim C9. An identifier whose catalog entry has no instruction text, or an empty
  one, is skipped like an absent identifier: it contributes nothing to the resolved
  sequence, wherever it stands in the selection. If every selected identifier is of
  this kind, the result is the single \<open>Basic Cleanup\<close> fallback, as for the empty
  selection.
\<close>

theorem selected_prompts_skips_empty_text:
  "(map_of pd i = Some d \<and> (p_prompt d = None \<or> p_prompt d = Some '''') \<longrightarrow>
      \<not> resolvable i pd
      \<and> selected_prompts (xs @ i # ys) pd = selected_prompts (xs @ ys) pd)
   \<and> ((\<forall>j\<in>set sel. \<exists>e. map_of pd j = Some e \<and> (p_prompt e = None \<or> p_prompt e = Some ''''))
        \<longrightarrow> selected_prompts sel pd = Inr [basic_cleanup_text]
          \<and> selected_prompts sel pd = selected_prompts [] pd)"
proof -
  have "\<not> resolvable i pd"
    if "map_of pd i = Some d" "p_prompt d = None \<or> p_prompt d = Some ''''"
    using that by (auto simp: resolvable_iff)
  moreover have "filter (\<lambda>i. resolvable i pd) sel = []"
    if "\<forall>j\<in>set sel. \<exists>e. map_of pd j = Some e \<and> (p_prompt e = None \<or> p_prompt e = Some '''')"
    using that by (auto simp: filter_empty_conv resolvable_iff)
  ultimately show ?thesis
    by (auto simp: selected_prompts_eq)
qed

theorem selected_prompts_skips_empty_text_witness:
  "selected_prompts [''formal_email'', ''draft'', ''bullet_points''] example_catalog =
     selected_prompts [''formal_email'', ''bullet_points''] example_catalog
   \<and> selected_prompts [''formal_email'', ''untitled'', ''bullet_points''] example_catalog =
     selected_prompts [''formal_email'', ''bullet_points''] example_catalog
   \<and> selected_prompts [''draft'', ''untitled''] example_catalog = Inr [basic_cleanup_text]"
proof -
  have m: "map_of example_catalog ''draft'' = Some \<lparr>p_name = Some ''Draft'',
          p_description = None, p_prompt = Some '''', p_requires_json = None\<rparr>"
    "map_of example_catalog ''untitled'' = Some empty_dict"
    by (simp_all add: example_catalog_def)
  have e: "p_prompt empty_dict = None"
    by (simp add: empty_dict_def)
  show ?thesis
    using selected_prompts_skips_empty_text [of example_catalog "''draft''"
        "\<lparr>p_name = Some ''Draft'', p_description = None, p_prompt = Some '''',
          p_requires_json = None\<rparr>"
        "[''formal_email'']" "[''bullet_points'']" "[''draft'', ''untitled'']"]
      selected_prompts_skips_empty_text [of example_catalog "''untitled''" empty_dict
        "[''formal_email'']" "[''bullet_points'']" "[]"]
    by (simp add: m e)
qed

text \<open>
  Claim C8. When more than 10 identifiers are presented, the selection applied is
  exactly the first 10 in presentation order and one advisory is signalled; 12
  identifiers give the first 10 of them. A selection of 10 or fewer passes through
  unchanged, with no advisory.
\<close>

theorem limit_selection_cap:
  "(length sel > 10 \<longrightarrow> limit_selection sel = ([limit_warning], take 10 sel))
   \<and> (length sel \<le> 10 \<longrightarrow> limit_selection sel = ([], sel))
   \<and> limit_selection [a1, a2, a3, a4, a5, a6, a7, a8, a9, a10, a11, a12] =
       ([limit_warning], [a1, a2, a3, a4, a5, a6, a7, a8, a9, a10])"
  by (simp add: limit_selection_def)

theorem limit_selection_cap_witness:
  "limit_selection [''a'', ''b'', ''c'', ''d'', ''e'', ''f'', ''g'', ''h'', ''i'', ''j'', ''k''] =
     ([limit_warning], [''a'', ''b'', ''c'', ''d'', ''e'', ''f'', ''g'', ''h'', ''i'', ''j''])
   \<and> limit_selection [''a'', ''b''] = ([], [''a'', ''b''])"
  using limit_selection_cap [of "[''a'', ''b'', ''c'', ''d'', ''e'', ''f'', ''g'', ''h'', ''i'', ''j'', ''k'']"]
    limit_selection_cap [of "[''a'', ''b'']"]
  by simp

section \<open>Substring test\<close>

lemma startswith_prefix: "startswith s w = prefix w s"
  by (induction s w rule: startswith.induct) auto

lemma str_in_sublist: "str_in w s = sublist w s"
  by (induction s) (simp_all add: startswith_prefix sublist_Cons_right)

section \<open>Catalog: filtering\<close>







section \<open>Catalog: categorisation\<close>

lemma any_word_in_sublist:
  "any_word_in n d ws = list_ex (\<lambda>word. sublist word n \<or> sublist word d) ws"
  by (simp add: any_word_in_def str_in_sublist)

lemma categorize_item_category_of:
  "categorize_item cats item = append_to (category_of (snd item)) (display_entry item) cats"
  by (cases item)
    (simp only: categorize_item_def category_of_def category_rules_def display_entry_def
      any_word_in_sublist Let_def first_match.simps fst_conv snd_conv prod.case
      if_distrib [of "\<lambda>c. append_to c _ _"])

lemma fold_categorize_item:
  "fold (\<lambda>item cats. categorize_item cats item) items cats =
     map (\<lambda>kv. (fst kv,
        snd kv @ map display_entry (filter (\<lambda>item. category_of (snd item) = fst kv) items))) cats"
proof (induction items arbitrary: cats rule: rev_induct)
  case Nil
  then show ?case by simp
next
  case (snoc item items)
  have "fold (\<lambda>item cats. categorize_item cats item) (items @ [item]) cats =
        categorize_item (fold (\<lambda>item cats. categorize_item cats item) items cats) item"
    by simp
  also have "\<dots> = append_to (category_of (snd item)) (display_entry item)
      (map (\<lambda>kv. (fst kv,
        snd kv @ map display_entry (filter (\<lambda>item. category_of (snd item) = fst kv) items))) cats)"
    unfolding snoc.IH by (rule categorize_item_category_of)
  also have "\<dots> = map (\<lambda>kv. (fst kv,
        snd kv @ map display_entry
          (filter (\<lambda>item. category_of (snd item) = fst kv) (items @ [item])))) cats"
    by (simp add: append_to_def eq_commute)
  finally show ?case .
qed

lemma categorize_prompts_eq:
  "categorize_prompts pd =
     map (\<lambda>kv. (fst kv,
        sort_key snd (map display_entry (filter (\<lambda>item. category_of (snd item) = fst kv) pd))))
       initial_categories"
  by (simp add: categorize_prompts_def fold_categorize_item o_def initial_categories_def)

lemma map_of_keyed:
  "map_of (map (\<lambda>kv. (fst kv, f (fst kv))) xs) c = (if c \<in> fst ` set xs then Some (f c) else None)"
  by (induction xs) auto

lemma bucket_categorize_prompts:
  assumes "c \<in> fst ` set initial_categories"
  shows "bucket (categorize_prompts pd) c =
     sort_key snd (map display_entry (filter (\<lambda>item. category_of (snd item) = c) pd))"
  using assms
  by (simp add: bucket_def categorize_prompts_eq get_or_def
      map_of_keyed [where f = "\<lambda>k. sort_key snd (map display_entry
        (filter (\<lambda>item. category_of (snd item) = k) pd))"])

lemma first_match_in:
  "first_match rules n d \<in> insert ''Other'' (fst ` set rules)"
  by (induction rules) auto

lemma rules_categories:
  "set (''Other'' # map fst category_rules) \<subseteq> set (map fst initial_categories)"
  by code_simp

lemma category_of_in: "category_of d \<in> fst ` set initial_categories"
proof -
  have "category_of d \<in> set (''Other'' # map fst category_rules)"
    using first_match_in [of category_rules] by (simp add: category_of_def)
  with rules_categories show ?thesis
    by (simp only: set_map) blast
qed

lemma display_entry_inj:
  assumes "distinct (map fst pd)" "x \<in> set pd" "y \<in> set pd" "display_entry x = display_entry y"
  shows "x = y"
proof -
  have "fst x = fst y"
    using assms(4) by (simp add: display_entry_def)
  with assms(1-3) show ?thesis
    by (meson distinct_map inj_onD)
qed

text \<open>
  Claim C6. Categorisation is a function of the catalog alone. The result has the ten
  fixed buckets; the bucket of an entry is decided by the priority-ordered rule list
  (first rule with a keyword in the lowercased name or description, else \<open>Other\<close>);
  every entry of the catalog appears in that bucket and in no other; and each bucket
  is the list of its entries sorted, stably, by display name in the default
  (case-sensitive) string order.
\<close>

theorem categorize_prompts_buckets:
  "map fst (categorize_prompts prompts_data) = map fst initial_categories
   \<and> (\<forall>c\<in>fst ` set initial_categories.
         bucket (categorize_prompts prompts_data) c =
           sort_key snd (map display_entry
             (filter (\<lambda>item. category_of (snd item) = c) prompts_data))
         \<and> sorted (map snd (bucket (categorize_prompts prompts_data) c)))
   \<and> (\<forall>item\<in>set prompts_data.
         category_of (snd item) \<in> fst ` set initial_categories
         \<and> display_entry item
             \<in> set (bucket (categorize_prompts prompts_data) (category_of (snd item))))
   \<and> (distinct (map fst prompts_data) \<longrightarrow>
        (\<forall>item\<in>set prompts_data. \<forall>c\<in>fst ` set initial_categories.
           (display_entry item \<in> set (bucket (categorize_prompts prompts_data) c))
             = (c = category_of (snd item))))
   \<and> category_of d =
       first_match category_rules
         (str_lower (get_or (p_name d) '''')) (str_lower (get_or (p_description d) ''''))"
proof -
  have keys: "map fst (categorize_prompts prompts_data) = map fst initial_categories"
    by (simp add: categorize_prompts_eq o_def)
  have sorted_bucket:
    "sorted (map snd (bucket (categorize_prompts prompts_data) c))"
    if "c \<in> fst ` set initial_categories" for c
    by (simp only: bucket_categorize_prompts [OF that] sorted_sort_key)
  have own: "display_entry item
      \<in> set (bucket (categorize_prompts prompts_data) (category_of (snd item)))"
    if item: "item \<in> set prompts_data" for item
  proof -
    from item have "display_entry item \<in> display_entry `
        {other \<in> set prompts_data. category_of (snd other) = category_of (snd item)}"
      by blast
    then show ?thesis
      by (simp add: bucket_categorize_prompts [OF category_of_in])
  qed
  have only: "c = category_of (snd item)"
    if keys_distinct: "distinct (map fst prompts_data)"
      and item: "item \<in> set prompts_data"
      and c: "c \<in> fst ` set initial_categories"
      and inside: "display_entry item \<in> set (bucket (categorize_prompts prompts_data) c)"
    for item c
  proof -
    from inside obtain other
      where other: "other \<in> set prompts_data" "category_of (snd other) = c"
        "display_entry other = display_entry item"
      by (auto simp: bucket_categorize_prompts [OF c])
    with display_entry_inj [OF keys_distinct other(1) item] show ?thesis
      by simp
  qed
  show ?thesis
  proof (intro conjI ballI impI)
    show "map fst (categorize_prompts prompts_data) = map fst initial_categories"
      by (rule keys)
  next
    fix c
    assume "c \<in> fst ` set initial_categories"
    then show "bucket (categorize_prompts prompts_data) c =
        sort_key snd (map display_entry
          (filter (\<lambda>item. category_of (snd item) = c) prompts_data))"
      and "sorted (map snd (bucket (categorize_prompts prompts_data) c))"
      by (rule bucket_categorize_prompts, rule sorted_bucket)
  next
    fix item
    show "category_of (snd item) \<in> fst ` set initial_categories"
      by (rule category_of_in)
  next
    fix item
    assume "item \<in> set prompts_data"
    then show "display_entry item
        \<in> set (bucket (categorize_prompts prompts_data) (category_of (snd item)))"
      by (rule own)
  next
    fix item c
    assume "distinct (map fst prompts_data)" "item \<in> set prompts_data"
      "c \<in> fst ` set initial_categories"
    then show "(display_entry item \<in> set (bucket (categorize_prompts prompts_data) c))
        = (c = category_of (snd item))"
      using own only by blast
  next
    show "category_of d = first_match category_rules (str_lower (get_or (p_name d) []))
        (str_lower (get_or (p_description d) []))"
      by (rule category_of_def)
  qed
qed

theorem categorize_prompts_buckets_witness:
  "bucket (categorize_prompts example_catalog) ''General'' =
     [(''basic_cleanup'', ''Basic Cleanup''), (''bullet_points'', ''Bullet Points'')]
   \<and> bucket (categorize_prompts example_catalog) ''Professional'' =
     [(''formal_email'', ''Formal Email'')]
   \<and> bucket (categorize_prompts example_catalog) ''Other'' =
     [(''draft'', ''Draft''), (''untitled'', ''Unknown'')]
   \<and> (''untitled'', ''Unknown'') \<notin> set (bucket (categorize_prompts example_catalog) ''Style'')"
proof -
  have d: "distinct (map fst example_catalog)"
    by code_simp
  have c: "''General'' \<in> fst ` set initial_categories"
    "''Professional'' \<in> fst ` set initial_categories"
    "''Other'' \<in> fst ` set initial_categories"
    "''Style'' \<in> fst ` set initial_categories"
    by (simp_all add: initial_categories_def)
  have v1: "sort_key snd (map display_entry
        (filter (\<lambda>item. category_of (snd item) = ''General'') example_catalog)) =
      [(''basic_cleanup'', ''Basic Cleanup''), (''bullet_points'', ''Bullet Points'')]"
    by code_simp
  have v2: "sort_key snd (map display_entry
        (filter (\<lambda>item. category_of (snd item) = ''Professional'') example_catalog)) =
      [(''formal_email'', ''Formal Email'')]"
    by code_simp
  have v3: "sort_key snd (map display_entry
        (filter (\<lambda>item. category_of (snd item) = ''Other'') example_catalog)) =
      [(''draft'', ''Draft''), (''untitled'', ''Unknown'')]"
    by code_simp
  have i: "(''untitled'', empty_dict) \<in> set example_catalog"
    by (simp add: example_catalog_def)
  have e: "display_entry (''untitled'', empty_dict) = (''untitled'', ''Unknown'')"
    "category_of (snd (''untitled'', empty_dict)) = ''Other''"
    by code_simp+
  note all = categorize_prompts_buckets [of example_catalog empty_dict]
  note buckets = conjunct1 [OF conjunct2 [OF all]]
  note exactly = mp [OF conjunct1 [OF conjunct2 [OF conjunct2 [OF conjunct2 [OF all]]]] d]
  show ?thesis
    using conjunct1 [OF bspec [OF buckets c(1)]] conjunct1 [OF bspec [OF buckets c(2)]]
      conjunct1 [OF bspec [OF buckets c(3)]] bspec [OF bspec [OF exactly i] c(4)]
    by (simp only: v1 v2 v3 e) simp
qed

section \<open>Generation Client\<close>

text \<open>
  What \<^verbatim>\<open>generate_text\<close> returns, by the outcome of its one request. A decoding error
  of the body is a \<^verbatim>\<open>RequestException\<close> and is reported like a transport error; a
  decoded body that is not a JSON object has no \<^verbatim>\<open>get\<close>, and that \<^verbatim>\<open>AttributeError\<close>
  is not caught.
\<close>

lemma generate_text_unfold:
  "generate_text requests_post self model prompt system_prompt temperature =
     (case requests_post (api_url self @ ''/generate'')
             (build_payload model prompt system_prompt temperature) of
        Raises msg \<Rightarrow> Inr (JStr (''Failed to connect to Ollama API: '' @ msg))
      | Returns response \<Rightarrow>
          if status_code response = 200 then
            (case json_result response of
               Inl msg \<Rightarrow> Inr (JStr (''Failed to connect to Ollama API: '' @ msg))
             | Inr doc \<Rightarrow>
                 (case doc of
                    JObj entries \<Rightarrow> Inr (get_or (map_of entries ''response'') (JStr ''''))
                  | _ \<Rightarrow> Inl AttributeError))
          else Inr (JStr (''Failed to generate text. Error: '' @ str_int (status_code response)
                 @ '' - '' @ text_body response)))"
  by (simp add: generate_text_def generate_text_try_def response_json_def get_or_def Let_def
      split: request_outcome.split sum.split json.split option.split)

text \<open>
  Claim C3, as the code has it. The success branch is taken for status 200 only, not
  for every 2xx status. On a response with status 200 whose body decodes to a JSON
  object, \<^verbatim>\<open>generate_text\<close> returns the \<^verbatim>\<open>response\<close> field when it is a string, and the
  empty string when the field is absent. On a response with any other status it
  returns the text \<open>Failed to generate text. Error: <status> - <raw body>\<close>. When the
  request raises a transport-level exception it returns the text
  \<open>Failed to connect to Ollama API: <exception text>\<close>. In each of these cases the
  caller receives a string and nothing is raised.
\<close>

theorem generate_text_outcomes:
  "(requests_post (api_url self @ ''/generate'')
        (build_payload model prompt system_prompt temperature) = Returns response
      \<and> status_code response = 200 \<and> json_result response = Inr (JObj entries)
      \<and> map_of entries ''response'' = Some (JStr generated)
    \<longrightarrow> generate_text requests_post self model prompt system_prompt temperature
          = Inr (JStr generated))
   \<and> (requests_post (api_url self @ ''/generate'')
        (build_payload model prompt system_prompt temperature) = Returns response
      \<and> status_code response = 200 \<and> json_result response = Inr (JObj entries)
      \<and> map_of entries ''response'' = None
    \<longrightarrow> generate_text requests_post self model prompt system_prompt temperature
          = Inr (JStr ''''))
   \<and> (requests_post (api_url self @ ''/generate'')
        (build_payload model prompt system_prompt temperature) = Returns response
      \<and> status_code response \<noteq> 200
    \<longrightarrow> generate_text requests_post self model prompt system_prompt temperature
          = Inr (JStr (''Failed to generate text. Error: '' @ str_int (status_code response)
                 @ '' - '' @ text_body response)))
   \<and> (requests_post (api_url self @ ''/generate'')
        (build_payload model prompt system_prompt temperature) = Raises msg
    \<longrightarrow> generate_text requests_post self model prompt system_prompt temperature
          = Inr (JStr (''Failed to connect to Ollama API: '' @ msg)))"
  by (simp add: generate_text_unfold get_or_def)

theorem generate_text_outcomes_witness:
  \<open>generate_text
      (post_server (Returns \<lparr>status_code = 200, text_body = ''{"response": "X"}'',
         json_result = Inr (JObj [(''response'', JStr ''X'')])\<rparr>))
      (OllamaAPI default_base_url) ''llama3'' ''hello'' (Some ''Fix typos.'') (7 / 10)
     = Inr (JStr ''X'')
   \<and> generate_text
      (post_server (Returns \<lparr>status_code = 200, text_body = ''{"done": true}'',
         json_result = Inr (JObj [(''done'', JBool True)])\<rparr>))
      (OllamaAPI default_base_url) ''llama3'' ''hello'' (Some ''Fix typos.'') (7 / 10)
     = Inr (JStr '''')
   \<and> generate_text
      (post_server (Returns \<lparr>status_code = 500, text_body = ''internal error'',
         json_result = Inl ''Expecting value''\<rparr>))
      (OllamaAPI default_base_url) ''llama3'' ''hello'' (Some ''Fix typos.'') (7 / 10)
     = Inr (JStr ''Failed to generate text. Error: 500 - internal error'')
   \<and> generate_text (post_server (Raises ''Connection refused''))
      (OllamaAPI default_base_url) ''llama3'' ''hello'' (Some ''Fix typos.'') (7 / 10)
     = Inr (JStr ''Failed to connect to Ollama API: Connection refused'')\<close>
proof -
  have s: "str_int 500 = ''500''"
    by (simp add: str_int_def str_nat.simps digit_char_def)
  show ?thesis
    using
      generate_text_outcomes [of
        \<open>post_server (Returns \<lparr>status_code = 200, text_body = ''{"response": "X"}'',
           json_result = Inr (JObj [(''response'', JStr ''X'')])\<rparr>)\<close>
        "OllamaAPI default_base_url" "''llama3''" "''hello''" "Some ''Fix typos.''" "7 / 10"
        \<open>\<lparr>status_code = 200, text_body = ''{"response": "X"}'',
           json_result = Inr (JObj [(''response'', JStr ''X'')])\<rparr>\<close>
        "[(''response'', JStr ''X'')]" "''X''" "''''"]
      generate_text_outcomes [of
        \<open>post_server (Returns \<lparr>status_code = 200, text_body = ''{"done": true}'',
           json_result = Inr (JObj [(''done'', JBool True)])\<rparr>)\<close>
        "OllamaAPI default_base_url" "''llama3''" "''hello''" "Some ''Fix typos.''" "7 / 10"
        \<open>\<lparr>status_code = 200, text_body = ''{"done": true}'',
           json_result = Inr (JObj [(''done'', JBool True)])\<rparr>\<close>
        "[(''done'', JBool True)]" "''''" "''''"]
      generate_text_outcomes [of
        "post_server (Returns \<lparr>status_code = 500, text_body = ''internal error'',
           json_result = Inl ''Expecting value''\<rparr>)"
        "OllamaAPI default_base_url" "''llama3''" "''hello''" "Some ''Fix typos.''" "7 / 10"
        "\<lparr>status_code = 500, text_body = ''internal error'',
           json_result = Inl ''Expecting value''\<rparr>"
        "[]" "''''" "''''"]
      generate_text_outcomes [of
        "post_server (Raises ''Connection refused'')"
        "OllamaAPI default_base_url" "''llama3''" "''hello''" "Some ''Fix typos.''" "7 / 10"
        "\<lparr>status_code = 500, text_body = '''', json_result = Inl ''''\<rparr>"
        "[]" "''''" "''Connection refused''"]
    by (simp add: post_server_def s)
qed

text \<open>
  Claim C3 as stated fails on a successful status other than 200: a 201 response
  carrying the generated text \<open>X\<close> gives the failure text, not \<open>X\<close>.
\<close>

theorem generate_text_status_201:
  \<open>is_2xx 201
   \<and> generate_text
      (post_server (Returns \<lparr>status_code = 201, text_body = ''{"response": "X"}'',
         json_result = Inr (JObj [(''response'', JStr ''X'')])\<rparr>))
      (OllamaAPI default_base_url) ''llama3'' ''hello'' None (7 / 10)
     = Inr (JStr ''Failed to generate text. Error: 201 - {"response": "X"}'')
   \<and> generate_text
      (post_server (Returns \<lparr>status_code = 201, text_body = ''{"response": "X"}'',
         json_result = Inr (JObj [(''response'', JStr ''X'')])\<rparr>))
      (OllamaAPI default_base_url) ''llama3'' ''hello'' None (7 / 10)
     \<noteq> Inr (JStr ''X'')\<close>
proof -
  have s: "str_int 201 = ''201''"
    by (simp add: str_int_def str_nat.simps digit_char_def)
  show ?thesis
    by (simp add: generate_text_unfold post_server_def is_2xx_def s)
qed




lemma model_names_named:
  "model_names (map (\<lambda>n. JObj [(''name'', n)]) ns) = Inr ns"
  by (induction ns) simp_all

text \<open>
  The failures \<^verbatim>\<open>list_models\<close> turns into the empty list (a transport error, a status
  other than 200, a body that is not JSON, an object without \<^verbatim>\<open>models\<close>), and its
  result on a well-formed payload.
\<close>

lemma list_models_handled:
  "list_models (get_server (Raises msg)) self = Inr []"
  "status_code response \<noteq> 200 \<Longrightarrow> list_models (get_server (Returns response)) self = Inr []"
  "status_code response = 200 \<Longrightarrow> json_result response = Inl msg \<Longrightarrow>
     list_models (get_server (Returns response)) self = Inr []"
  "status_code response = 200 \<Longrightarrow> json_result response = Inr (JObj entries) \<Longrightarrow>
     map_of entries ''models'' = None \<Longrightarrow>
     list_models (get_server (Returns response)) self = Inr []"
  "status_code response = 200 \<Longrightarrow> json_result response = Inr (JObj entries) \<Longrightarrow>
     map_of entries ''models'' = Some (JArr (map (\<lambda>n. JObj [(''name'', n)]) ns)) \<Longrightarrow>
     list_models (get_server (Returns response)) self = Inr ns"
  by (simp_all add: list_models_def list_models_try_def get_server_def response_json_def
      model_names_named)

text \<open>
  Claim C4 says that \<^verbatim>\<open>list_models\<close> never raises and returns an empty sequence on
  every malformed payload, among them a payload whose model entries lack the
  \<^verbatim>\<open>name\<close> field. On such a payload the subscript \<^verbatim>\<open>model["name"]\<close> raises
  \<^verbatim>\<open>KeyError\<close>, which \<^verbatim>\<open>except requests.RequestException\<close> does not catch: the call
  raises.
\<close>

theorem list_models_missing_name_raises:
  \<open>list_models
     (get_server (Returns \<lparr>status_code = 200,
        text_body = ''{"models": [{"model": "llama3"}]}'',
        json_result = Inr (JObj [(''models'', JArr [JObj [(''model'', JStr ''llama3'')]])])\<rparr>))
     (OllamaAPI default_base_url) = Inl (KeyError ''name'')\<close>
  by (simp add: list_models_def list_models_try_def get_server_def response_json_def)



end
